theory Spec2Isabelle
  imports Main "HOL-Library.Word"
begin

section \<open>Go values used by the Wasm host embedding (package rwasm)\<close>

text \<open>
  Go's \<open>int\<close> is a 64-bit two's-complement integer on the supported platforms and
  \<open>int32\<close> a 32-bit one: both are words, read with \<open>sint\<close>; \<open>+\<close> and \<open>-\<close> wrap.
  \<open>len(xs)\<close> is read as \<open>int (length xs)\<close> (a Go slice never holds \<open>2 ^ 63\<close> elements).
  A \<open>*wasmInstance\<close> and a \<open>*wasmEnvironment\<close> are addresses into two stores.
\<close>

type_synonym go_int = "64 word"
type_synonym int32 = "32 word"
type_synonym byte = "8 word"
type_synonym inst_ptr = nat
type_synonym env_ptr = nat

datatype runtime_panic =
    IndexOutOfRange
  | SliceBoundsOutOfRange
  | MakesliceLenOutOfRange
  | NilDereference

text \<open>
  A failure is either an \<open>error\<close> value the function returns (\<open>errors.New\<close>, with its
  message) or a run-time panic, which no function of the package recovers.
\<close>

datatype error = Error string | Panic runtime_panic

text \<open>\<open>errors.Wrap(err, msg)\<close> prefixes the message; a panic never reaches the wrapping line.\<close>

fun errors_Wrap :: "error \<Rightarrow> string \<Rightarrow> error" where
  "errors_Wrap (Error m) msg = Error (msg @ '': '' @ m)"
| "errors_Wrap (Panic p) msg = Panic p"

text \<open>The slice index expression \<open>xs[i]\<close>: it panics outside \<open>0 \<le> i < len(xs)\<close>.\<close>

definition index_slice :: "'a list \<Rightarrow> go_int \<Rightarrow> error + 'a" where
  "index_slice xs i =
     (if 0 \<le> sint i \<and> sint i < int (length xs) then Inr (xs ! nat (sint i))
      else Inl (Panic IndexOutOfRange))"

subsection \<open>wasmInstance, wasmEnvironment, instanceReference\<close>

text \<open>
  Of a \<open>wasmInstance\<close>: \<open>memory\<close> is what \<open>wasmerInst.Exports.GetMemory("memory")\<close> gives
  (\<open>None\<close> when the call fails or yields nil, otherwise the bytes of \<open>memory.Data()\<close>),
  \<open>ctx\<close> the \<open>*rt.Ctx\<close> (\<open>None\<close> is nil, otherwise a handle), \<open>ffiResult\<close> the staged
  reply (\<open>None\<close> is the nil slice; \<open>Some []\<close> an empty, non-nil one). The channels and
  the semaphore \<open>access\<close> only synchronise goroutines and are left out.
\<close>

record wasmInstance =
  memory :: "byte list option"
  ctx :: "nat option"
  ffiResult :: "byte list option"

text \<open>
  Of a \<open>wasmEnvironment\<close>: \<open>module\<close> stands for the triple \<open>module\<close>, \<open>store\<close>, \<open>imports\<close>,
  which \<open>internals\<close> sets together (\<open>None\<close> is nil).
\<close>

record wasmEnvironment =
  UUID :: string
  module :: "nat option"
  instances :: "inst_ptr list"
  instIndex :: go_int

record instanceReference =
  EnvUUID :: string
  InstIndex :: go_int

subsection \<open>instanceAtIndex\<close>

definition instanceAtIndex :: "wasmEnvironment \<Rightarrow> go_int \<Rightarrow> error + inst_ptr" where
  "instanceAtIndex w idx =
     (if int (length (instances w)) \<le> sint (idx - 1)
      then Inl (Error ''invalid instance index'')
      else index_slice (instances w) idx)"

subsection \<open>The package state\<close>

text \<open>
  The package variables \<open>environments\<close> (a map from UUID to \<open>*wasmEnvironment\<close>),
  \<open>instanceMapper\<close> (a \<open>sync.Map\<close> from identifier to \<open>instanceReference\<close>) and
  \<open>internalLogger\<close>, with the two stores the pointers refer to. \<open>instCount\<close> is the
  allocator: the next \<open>&wasmInstance{...}\<close> gets the address \<open>instCount\<close>. A logger
  entry records which method of the logger was called and the message; \<open>invoked\<close>
  records, in order, every guest export and every capability the host has called.
\<close>

datatype log_level = LogError | LogWarn | LogInfo | LogDebug

datatype invocation =
    WasiStart
  | GuestFunction string
  | GraphQLClientDo nat "byte list" "byte list"

record state =
  environments :: "string \<rightharpoonup> env_ptr"
  envStore :: "env_ptr \<rightharpoonup> wasmEnvironment"
  instStore :: "inst_ptr \<rightharpoonup> wasmInstance"
  instCount :: nat
  instanceMapper :: "int32 \<rightharpoonup> instanceReference"
  internalLogger :: "(log_level \<times> string) list"
  invoked :: "invocation list"

definition logError :: "error \<Rightarrow> state \<Rightarrow> state" where
  "logError e s =
     s\<lparr>internalLogger := internalLogger s @ [(LogError, case e of Error m \<Rightarrow> m | Panic p \<Rightarrow> [])]\<rparr>"

subsection \<open>newEnvironment\<close>

text \<open>\<open>uuid.New().String()\<close> and the address of the new object are given by the caller.\<close>

definition newEnvironment :: "string \<Rightarrow> env_ptr \<Rightarrow> state \<Rightarrow> env_ptr \<times> state" where
  "newEnvironment newUUID e s =
     (e, s\<lparr>envStore := (envStore s)(e \<mapsto> \<lparr>UUID = newUUID, module = None, instances = [], instIndex = 0\<rparr>),
           environments := (environments s)(newUUID \<mapsto> e)\<rparr>)"

subsection \<open>setFFIResult, useFFIResult\<close>

text \<open>
  Both are methods on \<open>*wasmInstance\<close>: the receiver is passed in and returned. The
  first component is what the method returns.
\<close>

definition setFFIResult :: "wasmInstance \<Rightarrow> byte list option \<Rightarrow> error option \<times> wasmInstance" where
  "setFFIResult w data =
     (if ffiResult w \<noteq> None then (Some (Error ''instance ffiResult is already set''), w)
      else (None, w\<lparr>ffiResult := data\<rparr>))"

definition useFFIResult :: "wasmInstance \<Rightarrow> (error + byte list option) \<times> wasmInstance" where
  "useFFIResult w =
     (if ffiResult w = None then (Inl (Error ''instance ffiResult is not set''), w)
      else (Inr (ffiResult w), w\<lparr>ffiResult := None\<rparr>))"

subsection \<open>readMemory\<close>

text \<open>
  The loop \<open>for index := 0; int32(index) < size; index++ { result[index] = data[index] }\<close>.
  \<open>index\<close> is an \<open>int\<close>; it stays below \<open>len(result)\<close>, so it is kept as a mathematical
  integer and only the conversion \<open>int32(index)\<close> truncates.
\<close>

function readMemory_loop :: "byte list \<Rightarrow> byte list \<Rightarrow> int \<Rightarrow> int32 \<Rightarrow> error + byte list" where
  "readMemory_loop data result index sz =
     (if sint (word_of_int index :: int32) < sint sz
      then (if 0 \<le> index \<and> index < int (length result) \<and> index < int (length data)
            then readMemory_loop data (result[nat index := data ! nat index]) (index + 1) sz
            else Inl (Panic IndexOutOfRange))
      else Inr result)"
  by pat_completeness auto
termination
  by (relation "measure (\<lambda>(data, result, index, sz). nat (int (length result) - index))") auto

definition readMemory :: "wasmInstance \<Rightarrow> int32 \<Rightarrow> int32 \<Rightarrow> error + byte list" where
  "readMemory w pointer sz =
     (case memory w of
        None \<Rightarrow> Inr []
      | Some mem \<Rightarrow>
          if sint pointer < 0 \<or> int (length mem) < sint pointer
          then Inl (Panic SliceBoundsOutOfRange)
          else if sint sz < 0 then Inl (Panic MakesliceLenOutOfRange)
          else readMemory_loop (drop (nat (sint pointer)) mem)
                 (replicate (nat (sint sz)) 0) 0 sz)"

subsection \<open>randomIdentifier, setupNewIdentifier, removeIdentifier\<close>

text \<open>
  One call of \<open>rand.Int(rand.Reader, big.NewInt(math.MaxInt32))\<close> either fails or
  yields a number \<open>num\<close> with \<open>0 \<le> num < MaxInt32\<close>; the caller of the model supplies
  the outcomes of the successive calls. \<open>int32(num.Int64())\<close> is the conversion.
\<close>

datatype rand_result = RandFailed string | RandNum nat

definition MaxInt32 :: nat where
  "MaxInt32 = 2147483647"

definition randomIdentifier :: "rand_result \<Rightarrow> error + int32" where
  "randomIdentifier r =
     (case r of
        RandFailed m \<Rightarrow> Inl (errors_Wrap (Error m) ''failed to rand.Int'')
      | RandNum num \<Rightarrow> Inr (word_of_nat num))"

text \<open>
  The loop of \<open>setupNewIdentifier\<close> runs until a draw fails or is not in the mapper:
  it consumes the supplied draws one per iteration, and \<open>None\<close> says that every
  supplied draw collided (the loop is still running).
\<close>

fun setupNewIdentifier ::
  "string \<Rightarrow> go_int \<Rightarrow> rand_result list \<Rightarrow> state \<Rightarrow> ((error + int32) \<times> state) option" where
  "setupNewIdentifier envUUID instIdx [] s = None"
| "setupNewIdentifier envUUID instIdx (r # rs) s =
     (case randomIdentifier r of
        Inl err \<Rightarrow> Some (Inl (errors_Wrap err ''failed to randomIdentifier''), s)
      | Inr ident \<Rightarrow>
          if instanceMapper s ident \<noteq> None then setupNewIdentifier envUUID instIdx rs s
          else Some (Inr ident,
                 s\<lparr>instanceMapper := (instanceMapper s)(ident \<mapsto> \<lparr>EnvUUID = envUUID, InstIndex = instIdx\<rparr>)\<rparr>))"

definition removeIdentifier :: "int32 \<Rightarrow> state \<Rightarrow> state" where
  "removeIdentifier ident s = s\<lparr>instanceMapper := (instanceMapper s)(ident := None)\<rparr>"

subsection \<open>instanceForIdentifier\<close>

definition instanceForIdentifier :: "state \<Rightarrow> int32 \<Rightarrow> bool \<Rightarrow> error + inst_ptr" where
  "instanceForIdentifier s ident needsFFIResult =
     (case instanceMapper s ident of
        None \<Rightarrow> Inl (Error ''instance does not exist'')
      | Some ref \<Rightarrow>
         (case environments s (EnvUUID ref) of
            None \<Rightarrow> Inl (Error ''environment does not exist'')
          | Some e \<Rightarrow>
             (case envStore s e of
                None \<Rightarrow> Inl (Panic NilDereference)
              | Some env \<Rightarrow>
                 (case instanceAtIndex env (InstIndex ref) of
                    Inl err \<Rightarrow> Inl (errors_Wrap err ''failed to instanceAtIndex'')
                  | Inr inst \<Rightarrow>
                      if needsFFIResult
                      then (case instStore s inst of
                              None \<Rightarrow> Inl (Panic NilDereference)
                            | Some i \<Rightarrow>
                                if ffiResult i \<noteq> None
                                then Inl (Error ''cannot use instance for host call with existing call in progress'')
                                else Inr inst)
                      else Inr inst))))"

subsection \<open>useInstance\<close>

text \<open>
  The selection under \<open>w.lock\<close>: advance the cursor, read it, index the list. The cursor
  is stored before the index expression is evaluated, so it stays advanced when the
  expression panics.
\<close>

definition useInstance_select :: "wasmEnvironment \<Rightarrow> wasmEnvironment \<times> (error + inst_ptr)" where
  "useInstance_select w =
     (let w' = w\<lparr>instIndex := (if sint (instIndex w) = int (length (instances w)) - 1
                                 then 0 else instIndex w + 1)\<rparr>
      in (w', index_slice (instances w') (instIndex w')))"

text \<open>
  Up to the call of \<open>instFunc\<close>: select, acquire the instance, issue the identifier,
  set the temporary state. \<open>inst.access.Acquire\<close> reads a field of \<open>inst\<close>, so a nil
  \<open>inst\<close> panics there, before any identifier is drawn; the semaphore itself only
  holds other goroutines off the instance, whose fields are therefore the same after
  \<open>setupNewIdentifier\<close> as before. The result holds the arguments \<open>instFunc\<close> is called
  with.
\<close>

definition useInstance_acquire ::
  "env_ptr \<Rightarrow> nat option \<Rightarrow> rand_result list \<Rightarrow> state \<Rightarrow> ((error + inst_ptr \<times> int32) \<times> state) option" where
  "useInstance_acquire w c draws s =
     (case envStore s w of
        None \<Rightarrow> Some (Inl (Panic NilDereference), s)
      | Some env \<Rightarrow>
          let (env', sel) = useInstance_select env;
              s1 = s\<lparr>envStore := (envStore s)(w \<mapsto> env')\<rparr>
          in (case sel of
                Inl p \<Rightarrow> Some (Inl p, s1)
              | Inr inst \<Rightarrow>
                 (case instStore s1 inst of
                    None \<Rightarrow> Some (Inl (Panic NilDereference), s1)
                  | Some i \<Rightarrow>
                     (case setupNewIdentifier (UUID env') (instIndex env') draws s1 of
                        None \<Rightarrow> None
                      | Some (Inl err, s2) \<Rightarrow>
                          Some (Inl (errors_Wrap err ''failed to setupNewIdentifier''), s2)
                      | Some (Inr ident, s2) \<Rightarrow>
                          Some (Inr (inst, ident),
                            s2\<lparr>instStore := (instStore s2)(inst \<mapsto> i\<lparr>ctx := c, ffiResult := None\<rparr>)\<rparr>)))))"

text \<open>After \<open>instFunc\<close> has returned: clear the temporary state, revoke the identifier.\<close>

definition useInstance_release :: "inst_ptr \<Rightarrow> int32 \<Rightarrow> state \<Rightarrow> error option \<times> state" where
  "useInstance_release inst ident s =
     (case instStore s inst of
        None \<Rightarrow> (Some (Panic NilDereference), s)
      | Some i \<Rightarrow>
          (None, removeIdentifier ident
                   (s\<lparr>instStore := (instStore s)(inst \<mapsto> i\<lparr>ctx := None, ffiResult := None\<rparr>)\<rparr>)))"

definition useInstance ::
  "env_ptr \<Rightarrow> nat option \<Rightarrow> (inst_ptr \<Rightarrow> int32 \<Rightarrow> state \<Rightarrow> state) \<Rightarrow> rand_result list \<Rightarrow> state
     \<Rightarrow> (error option \<times> state) option" where
  "useInstance w c instFunc draws s =
     (case useInstance_acquire w c draws s of
        None \<Rightarrow> None
      | Some (Inl err, s') \<Rightarrow> Some (Some err, s')
      | Some (Inr (inst, ident), s') \<Rightarrow> Some (useInstance_release inst ident (instFunc inst ident s')))"

subsection \<open>The atomic steps of setupNewIdentifier\<close>

text \<open>
  \<open>instanceMapper\<close> is a \<open>sync.Map\<close>: each \<open>Load\<close> and each \<open>Store\<close> is atomic, and
  \<open>setupNewIdentifier\<close> takes no lock around the two. \<open>useInstance\<close> calls it after
  \<open>w.lock.Unlock()\<close>, holding only the semaphore of its own instance, so calls for
  different instances run in different goroutines at the same time. A goroutine inside
  \<open>setupNewIdentifier\<close> is at one of these points: before \<open>randomIdentifier()\<close>, before
  \<open>instanceMapper.Load(ident)\<close>, before \<open>instanceMapper.Store(ident, ref)\<close>, or returned.
\<close>

datatype setup_pc =
    AtDraw
  | AtLoad int32
  | AtStore int32
  | Returned "error + int32"

record setup_call =
  envUUID_arg :: string
  instIndex_arg :: go_int
  pc :: setup_pc

text \<open>
  One atomic step of one call. \<open>r\<close> is the outcome of \<open>rand.Int\<close> should the call be at
  \<open>AtDraw\<close>; it is not read otherwise.
\<close>

definition setup_step ::
  "rand_result \<Rightarrow> setup_call \<Rightarrow> (int32 \<rightharpoonup> instanceReference)
     \<Rightarrow> setup_call \<times> (int32 \<rightharpoonup> instanceReference)" where
  "setup_step r c m =
     (case pc c of
        AtDraw \<Rightarrow>
          (case randomIdentifier r of
             Inl err \<Rightarrow> (c\<lparr>pc := Returned (Inl (errors_Wrap err ''failed to randomIdentifier''))\<rparr>, m)
           | Inr ident \<Rightarrow> (c\<lparr>pc := AtLoad ident\<rparr>, m))
      | AtLoad ident \<Rightarrow>
          (if m ident \<noteq> None then (c\<lparr>pc := AtDraw\<rparr>, m) else (c\<lparr>pc := AtStore ident\<rparr>, m))
      | AtStore ident \<Rightarrow>
          (c\<lparr>pc := Returned (Inr ident)\<rparr>,
           m(ident \<mapsto> \<lparr>EnvUUID = envUUID_arg c, InstIndex = instIndex_arg c\<rparr>))
      | Returned v \<Rightarrow> (c, m))"

text \<open>
  A schedule names, step by step, the goroutine that runs next (an index into the list
  of calls) and the draw it gets.
\<close>

fun run_schedule ::
  "(nat \<times> rand_result) list \<Rightarrow> setup_call list \<times> (int32 \<rightharpoonup> instanceReference)
     \<Rightarrow> setup_call list \<times> (int32 \<rightharpoonup> instanceReference)" where
  "run_schedule [] cm = cm"
| "run_schedule ((k, r) # sched) (cs, m) =
     (if k < length cs
      then (let (c', m') = setup_step r (cs ! k) m in run_schedule sched (cs[k := c'], m'))
      else run_schedule sched (cs, m))"

subsection \<open>internals, addInstance\<close>

text \<open>
  The Wasm runtime and the module reference are outside the package. For one
  environment, \<open>wasmer_api\<close> holds what their calls return: \<open>w.ref.Bytes()\<close>,
  \<open>wasmer.NewModule\<close>, \<open>wasmer.NewWasiStateBuilder(w.ref.Name).Finalize()\<close> (only whether
  it fails) and \<open>wasmer.NewInstance\<close>. \<open>env.GenerateImportObject\<close> is left out: its
  failure is replaced by a default and never returned. Of an instance's exports, a
  getter yields \<open>None\<close> when it returns an error or nil, otherwise what calling the
  function returns (\<open>None\<close> for no error).
\<close>

record wasmer_exports =
  GetWasiStartFunction :: "error option option"
  GetFunction_start :: "error option option"
  GetFunction_init :: "error option option"
  GetMemory :: "byte list option"

record wasmer_api =
  ref_Bytes :: "error + byte list"
  NewModule :: "byte list \<Rightarrow> error + nat"
  Finalize :: "error option"
  NewInstance :: "nat \<Rightarrow> error + wasmer_exports"

definition internals :: "wasmer_api \<Rightarrow> wasmEnvironment \<Rightarrow> (error + nat) \<times> wasmEnvironment" where
  "internals rt w =
     (case module w of
        Some m \<Rightarrow> (Inr m, w)
      | None \<Rightarrow>
         (case ref_Bytes rt of
            Inl err \<Rightarrow> (Inl (errors_Wrap err ''failed to get ref ModuleBytes''), w)
          | Inr moduleBytes \<Rightarrow>
             (case NewModule rt moduleBytes of
                Inl err \<Rightarrow> (Inl (errors_Wrap err ''failed to NewModule''), w)
              | Inr m \<Rightarrow>
                 (case Finalize rt of
                    Some err \<Rightarrow> (Inl (errors_Wrap err ''failed to NewWasiStateBuilder.Finalize''), w)
                  | None \<Rightarrow> (Inr m, w\<lparr>module := Some m\<rparr>)))))"

text \<open>Calling a guest export: the call is recorded, and its error (if any) wrapped.\<close>

definition callExport :: "invocation \<Rightarrow> error option \<Rightarrow> string \<Rightarrow> state \<Rightarrow> error option \<times> state" where
  "callExport f r msg s =
     (map_option (\<lambda>err. errors_Wrap err msg) r, s\<lparr>invoked := invoked s @ [f]\<rparr>)"

definition addInstance :: "wasmer_api \<Rightarrow> env_ptr \<Rightarrow> state \<Rightarrow> error option \<times> state" where
  "addInstance rt w s =
     (case envStore s w of
        None \<Rightarrow> (Some (Panic NilDereference), s)
      | Some env \<Rightarrow>
          let (r, env1) = internals rt env;
              s1 = s\<lparr>envStore := (envStore s)(w \<mapsto> env1)\<rparr>
          in (case r of
                Inl err \<Rightarrow> (Some (errors_Wrap err ''failed to ModuleBytes''), s1)
              | Inr m \<Rightarrow>
                 (case NewInstance rt m of
                    Inl err \<Rightarrow> (Some (errors_Wrap err ''failed to NewInstance''), s1)
                  | Inr inst \<Rightarrow>
                      let (r2, s2) =
                            (case GetWasiStartFunction inst of
                               Some wasiStart \<Rightarrow> callExport WasiStart wasiStart ''failed to wasiStart'' s1
                             | None \<Rightarrow>
                                (case GetFunction_start inst of
                                   Some start \<Rightarrow>
                                     callExport (GuestFunction ''_start'') start ''failed to _start'' s1
                                 | None \<Rightarrow> (None, s1)))
                      in (case r2 of
                            Some err \<Rightarrow> (Some err, s2)
                          | None \<Rightarrow>
                              let (r3, s3) =
                                    (case GetFunction_init inst of
                                       Some init \<Rightarrow>
                                         callExport (GuestFunction ''init'') init ''failed to init'' s2
                                     | None \<Rightarrow> (None, s2))
                              in (case r3 of
                                    Some err \<Rightarrow> (Some err, s3)
                                  | None \<Rightarrow>
                                      (None,
                                       s3\<lparr>instStore := (instStore s3)(instCount s3 \<mapsto>
                                              \<lparr>memory = GetMemory inst, ctx = None, ffiResult = None\<rparr>),
                                          instCount := Suc (instCount s3),
                                          envStore := (envStore s3)(w \<mapsto>
                                              env1\<lparr>instances := instances env1 @ [instCount s3]\<rparr>)\<rparr>))))))"

section \<open>The GraphQL host function (package api)\<close>

text \<open>
  \<open>graphql_query\<close> reaches the instance through the exported \<open>runtime.InstanceForIdentifier\<close>,
  \<open>inst.ReadMemory\<close>, \<open>inst.Ctx()\<close>, \<open>inst.SetFFIResult\<close> and \<open>runtime.InternalLogger()\<close>: they
  are \<open>instanceForIdentifier\<close>, \<open>readMemory\<close>, the field \<open>ctx\<close>, \<open>setFFIResult\<close> and
  \<open>internalLogger\<close> above. The GraphQL client and \<open>json.Marshal\<close> are outside the package:
  \<open>capabilities\<close> holds what \<open>inst.Ctx().GraphQLClient.Do(inst.Ctx().Auth, endpoint, query)\<close>
  returns for a context, and what \<open>json.Marshal\<close> returns for a response. A Go string
  made from bytes holds the same bytes. \<open>Logger.Error\<close> writes an entry at the error level.
\<close>

record capabilities =
  GraphQLClient_Do :: "nat \<Rightarrow> byte list \<Rightarrow> byte list \<Rightarrow> error + nat"
  json_Marshal :: "nat \<Rightarrow> error + byte list"

definition graphql_query ::
  "capabilities \<Rightarrow> int32 \<Rightarrow> int32 \<Rightarrow> int32 \<Rightarrow> int32 \<Rightarrow> int32 \<Rightarrow> state \<Rightarrow> (error + int32) \<times> state" where
  "graphql_query caps endpointPointer endpointSize queryPointer querySize identifier s =
     (case instanceForIdentifier s identifier True of
        Inl (Panic p) \<Rightarrow> (Inl (Panic p), s)
      | Inl (Error m) \<Rightarrow>
          (Inr (- 1),
           logError (errors_Wrap (Error m)
             ''[rwasm] alert: invalid identifier used, potential malicious activity'') s)
      | Inr inst \<Rightarrow>
         (case instStore s inst of
            None \<Rightarrow> (Inl (Panic NilDereference), s)
          | Some i \<Rightarrow>
             (case readMemory i endpointPointer endpointSize of
                Inl p \<Rightarrow> (Inl p, s)
              | Inr endpoint \<Rightarrow>
                 (case readMemory i queryPointer querySize of
                    Inl p \<Rightarrow> (Inl p, s)
                  | Inr query \<Rightarrow>
                     (case ctx i of
                        None \<Rightarrow> (Inl (Panic NilDereference), s)
                      | Some c \<Rightarrow>
                          let s1 = s\<lparr>invoked := invoked s @ [GraphQLClientDo c endpoint query]\<rparr>
                          in (case GraphQLClient_Do caps c endpoint query of
                                Inl err \<Rightarrow>
                                  (Inr (- 1), logError (errors_Wrap err ''failed to GraphQLClient.Do'') s1)
                              | Inr resp \<Rightarrow>
                                 (case json_Marshal caps resp of
                                    Inl err \<Rightarrow>
                                      (Inr (- 1),
                                       logError (errors_Wrap err ''[rwasm] alert: failed to Marshal'') s1)
                                  | Inr respBytes \<Rightarrow>
                                      (Inr (word_of_nat (length respBytes)),
                                       s1\<lparr>instStore := (instStore s1)(inst \<mapsto>
                                             snd (setFFIResult i (Some respBytes)))\<rparr>))))))))"

section \<open>Listen (package rt)\<close>

text \<open>
  A \<open>grav.Message\<close> with the fields the handler reads and writes. A Go string and a
  \<open>[]byte\<close> hold the same bytes, so message data and strings are both \<open>string\<close> here.
\<close>

record message =
  msg_UUID :: string
  msg_ParentID :: string
  msg_ReplyTo :: string
  msg_Type :: string
  msg_Data :: string

definition MsgTypeReactrJobErr :: string where
  "MsgTypeReactrJobErr = ''reactr.joberr''"

definition MsgTypeReactrRunErr :: string where
  "MsgTypeReactrRunErr = ''reactr.runerr''"

definition MsgTypeReactrResult :: string where
  "MsgTypeReactrResult = ''reactr.result''"

definition MsgTypeReactrNilResult :: string where
  "MsgTypeReactrNilResult = ''reactr.nil''"

text \<open>
  The error a job's \<open>Then()\<close> returns: a \<open>RunErr\<close> (code and message), any other error,
  or an error wrapping another. \<open>errors.As(err, runErr)\<close> walks the chain for a \<open>RunErr\<close>.
  The method \<open>RunErr.Error\<close> is declared outside the files at hand: it is the parameter
  \<open>fmt\<close>.
\<close>

datatype job_error =
    RunErr int string
  | OtherError string
  | Wrapped string job_error

fun errors_As_RunErr :: "job_error \<Rightarrow> (int \<times> string) option" where
  "errors_As_RunErr (RunErr code m) = Some (code, m)"
| "errors_As_RunErr (OtherError m) = None"
| "errors_As_RunErr (Wrapped msg e) = errors_As_RunErr e"

fun job_error_Error :: "(int \<Rightarrow> string \<Rightarrow> string) \<Rightarrow> job_error \<Rightarrow> string" where
  "job_error_Error fmt (RunErr code m) = fmt code m"
| "job_error_Error fmt (OtherError m) = m"
| "job_error_Error fmt (Wrapped msg e) = msg @ '': '' @ job_error_Error fmt e"

text \<open>
  The \<open>interface{}\<close> a job returns, by the cases the handler's type switch tells apart;
  \<open>'a\<close> is every other dynamic type.
\<close>

datatype 'a job_result =
    NilResult
  | MessageResult message
  | BytesResult string
  | StringResult string
  | StructResult 'a

text \<open>\<open>grav.NewMsgWithParentID\<close>; the fresh UUID of the message is given by the caller.\<close>

definition NewMsgWithParentID :: "string \<Rightarrow> string \<Rightarrow> string \<Rightarrow> string \<Rightarrow> message" where
  "NewMsgWithParentID newUUID msgType parentID data =
     \<lparr>msg_UUID = newUUID, msg_ParentID = parentID, msg_ReplyTo = [], msg_Type = msgType, msg_Data = data\<rparr>"

text \<open>
  The function \<open>Listen\<close> registers with \<open>pod.OnType\<close>, run on one inbound message \<open>msg\<close>.
  \<open>outcome\<close> is what \<open>helper(msg.Data()).Then()\<close> returns, \<open>marshal\<close> is \<open>json.Marshal\<close>.
  The result is the log entries written (\<open>r.log.Error\<close>) and the messages handed to
  \<open>pod.ReplyTo(msg, _)\<close>, in order.
\<close>

definition Listen_handler ::
  "(int \<Rightarrow> string \<Rightarrow> string) \<Rightarrow> ('a \<Rightarrow> job_error + string) \<Rightarrow> string \<Rightarrow> message
     \<Rightarrow> 'a job_result \<times> job_error option \<Rightarrow> (log_level \<times> string) list \<times> message list" where
  "Listen_handler fmt marshal newUUID msg outcome =
     (case snd outcome of
        Some err \<Rightarrow>
          (let logged = [(LogError, job_error_Error fmt
                 (Wrapped (''job from message '' @ msg_UUID msg @ '' returned error result'') err))]
           in (case errors_As_RunErr err of
                 Some (code, m) \<Rightarrow>
                   (logged, [NewMsgWithParentID newUUID MsgTypeReactrRunErr (msg_ParentID msg) (fmt code m)])
               | None \<Rightarrow>
                   (logged, [NewMsgWithParentID newUUID MsgTypeReactrJobErr (msg_ParentID msg)
                               (job_error_Error fmt err)])))
      | None \<Rightarrow>
         (case fst outcome of
            NilResult \<Rightarrow>
              ([], [NewMsgWithParentID newUUID MsgTypeReactrNilResult (msg_ParentID msg) []])
          | MessageResult resultMsg \<Rightarrow>
              ([], [resultMsg\<lparr>msg_ReplyTo := msg_UUID msg\<rparr>])
          | BytesResult bytes \<Rightarrow>
              ([], [NewMsgWithParentID newUUID MsgTypeReactrResult (msg_ParentID msg) bytes])
          | StringResult resultString \<Rightarrow>
              ([], [NewMsgWithParentID newUUID MsgTypeReactrResult (msg_ParentID msg) resultString])
          | StructResult v \<Rightarrow>
             (case marshal v of
                Inl err \<Rightarrow>
                  ([(LogError, job_error_Error fmt
                       (Wrapped (''job from message '' @ msg_UUID msg
                                 @ '' returned result that could not be JSON marshalled'') err))],
                   [NewMsgWithParentID newUUID MsgTypeReactrJobErr (msg_ParentID msg)
                      (job_error_Error fmt (Wrapped ''failed to Marshal job result'' err))])
              | Inr resultJSON \<Rightarrow>
                  ([], [NewMsgWithParentID newUUID MsgTypeReactrResult (msg_ParentID msg) resultJSON]))))"

text \<open>The instance list of the environment at \<open>w\<close>, read out of a state.\<close>

definition instances_at :: "state \<Rightarrow> env_ptr \<Rightarrow> inst_ptr list option" where
  "instances_at s w = map_option instances (envStore s w)"

section \<open>The instantiation protocol as the specification words it\<close>

text \<open>
  The specification: after constructing an instance, invoke the exported start hooks
  in this order, each optional: first the WASI start entry (or the exported \<open>_start\<close>)
  if present, second the exported \<open>init\<close> if present; either failing is fatal.
  \<open>instantiation_protocol\<close> lists the hooks a module has, in that order, each with what
  calling it returns; \<open>called_hooks\<close> are those invoked when the first failure stops
  the sequence.
\<close>

definition instantiation_protocol :: "wasmer_exports \<Rightarrow> (invocation \<times> error option) list" where
  "instantiation_protocol ex =
     (case GetWasiStartFunction ex of
        Some r \<Rightarrow> [(WasiStart, r)]
      | None \<Rightarrow> (case GetFunction_start ex of Some r \<Rightarrow> [(GuestFunction ''_start'', r)] | None \<Rightarrow> []))
     @ (case GetFunction_init ex of Some r \<Rightarrow> [(GuestFunction ''init'', r)] | None \<Rightarrow> [])"

fun called_hooks :: "(invocation \<times> error option) list \<Rightarrow> invocation list" where
  "called_hooks [] = []"
| "called_hooks ((f, r) # hs) = f # (if r = None then called_hooks hs else [])"

section \<open>A concrete pool\<close>

text \<open>
  One environment \<open>env-a\<close> at address 0 with two instances at addresses 0 and 1, no
  identifier issued: the state after \<open>newEnvironment\<close> and two calls of \<open>addInstance\<close>.
\<close>

definition pool_env :: wasmEnvironment where
  "pool_env = \<lparr>UUID = ''env-a'', module = Some 0, instances = [0, 1], instIndex = 0\<rparr>"

definition idle_instance :: wasmInstance where
  "idle_instance = \<lparr>memory = Some [104, 105], ctx = None, ffiResult = None\<rparr>"

definition pool_state :: state where
  "pool_state =
     \<lparr>environments = [''env-a'' \<mapsto> 0],
      envStore = [0 \<mapsto> pool_env],
      instStore = [0 \<mapsto> idle_instance, 1 \<mapsto> idle_instance],
      instCount = 2,
      instanceMapper = Map.empty,
      internalLogger = [],
      invoked = []\<rparr>"

text \<open>
  The package variables before any call, and a runtime whose module compiles and
  whose instances export \<open>_start\<close>, \<open>init\<close> and a two-byte memory.
\<close>

definition initial_state :: state where
  "initial_state =
     \<lparr>environments = Map.empty, envStore = Map.empty, instStore = Map.empty, instCount = 0,
      instanceMapper = Map.empty, internalLogger = [], invoked = []\<rparr>"

definition plain_exports :: wasmer_exports where
  "plain_exports =
     \<lparr>GetWasiStartFunction = None, GetFunction_start = Some None, GetFunction_init = Some None,
      GetMemory = Some [104, 105]\<rparr>"

definition plain_runtime :: "wasmer_exports \<Rightarrow> wasmer_api" where
  "plain_runtime ex =
     \<lparr>ref_Bytes = Inr [0, 97, 115, 109], NewModule = (\<lambda>bytes. Inr 0), Finalize = None,
      NewInstance = (\<lambda>m. Inr ex)\<rparr>"

text \<open>Capabilities whose GraphQL client cannot reach its endpoint.\<close>

definition failing_capabilities :: capabilities where
  "failing_capabilities =
     \<lparr>GraphQLClient_Do = (\<lambda>c endpoint query. Inl (Error ''no route to host'')),
      json_Marshal = (\<lambda>resp. Inr [123, 125])\<rparr>"

text \<open>An inbound bus message, a \<open>RunErr.Error\<close> that prints the message, and a \<open>json.Marshal\<close>
  on booleans that fails on one of them.\<close>

definition inbound_message :: message where
  "inbound_message =
     \<lparr>msg_UUID = ''m-1'', msg_ParentID = ''p-1'', msg_ReplyTo = [], msg_Type = ''compute'', msg_Data = ''5''\<rparr>"

definition RunErr_text :: "int \<Rightarrow> string \<Rightarrow> string" where
  "RunErr_text code m = m"

definition marshal_flag :: "bool \<Rightarrow> job_error + string" where
  "marshal_flag b = (if b then Inr ''true'' else Inl (OtherError ''unsupported type''))"

text \<open>
  Two calls of \<open>setupNewIdentifier\<close> in two goroutines, for instances of two
  environments, and a schedule on which both draw 5 and both run \<open>Load\<close> before either
  runs \<open>Store\<close>.
\<close>

definition racing_calls :: "setup_call list" where
  "racing_calls =
     [\<lparr>envUUID_arg = ''env-a'', instIndex_arg = 0, pc = AtDraw\<rparr>,
      \<lparr>envUUID_arg = ''env-b'', instIndex_arg = 0, pc = AtDraw\<rparr>]"

text \<open>
  The state the two calls run in: the environments \<open>env-a\<close> and \<open>env-b\<close>, each with one
  instance (at addresses 0 and 1), no identifier issued.
\<close>

definition two_pools_state :: state where
  "two_pools_state =
     \<lparr>environments = [''env-a'' \<mapsto> 0, ''env-b'' \<mapsto> 1],
      envStore = [0 \<mapsto> \<lparr>UUID = ''env-a'', module = Some 0, instances = [0], instIndex = 0\<rparr>,
                  1 \<mapsto> \<lparr>UUID = ''env-b'', module = Some 1, instances = [1], instIndex = 0\<rparr>],
      instStore = [0 \<mapsto> idle_instance, 1 \<mapsto> idle_instance],
      instCount = 2,
      instanceMapper = Map.empty,
      internalLogger = [],
      invoked = []\<rparr>"

definition racing_schedule :: "(nat \<times> rand_result) list" where
  "racing_schedule =
     [(0, RandNum 5), (0, RandNum 5), (1, RandNum 5), (1, RandNum 5), (0, RandNum 5), (1, RandNum 5)]"

section \<open>Arithmetic of Go's int\<close>

lemma sint_minus_one_64:
  fixes i :: go_int
  assumes "- (2 ^ 63) < sint i"
  shows "sint (i - 1) = sint i - 1"
proof -
  have lt: "sint i < 2 ^ 63" using sint_lt [of i] by simp
  have "sint (i - 1) = signed_take_bit 63 (sint i - 1)"
    by (simp add: sint_word_ariths)
  also have "\<dots> = sint i - 1"
    using assms lt by (intro signed_take_bit_int_eq_self) auto
  finally show ?thesis .
qed

lemma sint_plus_one_64:
  fixes i :: go_int
  assumes "sint i < 2 ^ 63 - 1"
  shows "sint (i + 1) = sint i + 1"
proof -
  have ge: "- (2 ^ 63) \<le> sint i" using sint_ge [of i] by simp
  have "sint (i + 1) = signed_take_bit 63 (sint i + 1)"
    by (simp add: sint_word_ariths)
  also have "\<dots> = sint i + 1"
    using assms ge by (intro signed_take_bit_int_eq_self) auto
  finally show ?thesis .
qed

lemma sint_plus_one_64_wrap:
  fixes i :: go_int
  assumes "\<not> sint i < 2 ^ 63 - 1"
  shows "sint (i + 1) < 0"
proof -
  have "sint i < 2 ^ 63" using sint_lt [of i] by simp
  with assms have "sint i = 2 ^ 63 - 1" by simp
  then have "sint i = sint (word_of_int (2 ^ 63 - 1) :: go_int)" by simp
  then have "i = word_of_int (2 ^ 63 - 1)" by (rule signed_word_eqI)
  then show ?thesis by simp
qed

section \<open>Instance lookup by index\<close>

lemma instanceAtIndex_in_range:
  assumes "0 \<le> sint idx" "sint idx < int (length (instances w))"
  shows "instanceAtIndex w idx = Inr (instances w ! nat (sint idx))"
  using assms by (simp add: instanceAtIndex_def index_slice_def sint_minus_one_64)

lemma instanceAtIndex_beyond:
  assumes "int (length (instances w)) < sint idx"
  shows "instanceAtIndex w idx = Inl (Error ''invalid instance index'')"
  using assms by (simp add: instanceAtIndex_def sint_minus_one_64)

lemma instanceAtIndex_at_length:
  assumes "sint idx = int (length (instances w))"
  shows "instanceAtIndex w idx = Inl (Panic IndexOutOfRange)"
  using assms by (simp add: instanceAtIndex_def index_slice_def sint_minus_one_64)

lemma instanceAtIndex_negative:
  assumes "sint idx < 0" "- (2 ^ 63) < sint idx"
  shows "instanceAtIndex w idx = Inl (Panic IndexOutOfRange)"
  using assms by (simp add: instanceAtIndex_def index_slice_def sint_minus_one_64)

text \<open>
  C2 (bounds checking of instance lookup). The guard \<open>len(w.instances) <= idx-1\<close> lets
  \<open>idx = len(w.instances)\<close> and every negative index but the least through to
  \<open>w.instances[idx]\<close>: with one instance in the pool, index 1 and index \<open>-1\<close> are not
  answered with the error \<open>invalid instance index\<close> but reach the index expression,
  which panics.
\<close>

theorem instanceAtIndex_guard_off_by_one:
  "instanceAtIndex \<lparr>UUID = ''env-a'', module = None, instances = [0], instIndex = 0\<rparr> 1
     = Inl (Panic IndexOutOfRange)
   \<and> instanceAtIndex \<lparr>UUID = ''env-a'', module = None, instances = [0], instIndex = 0\<rparr> (- 1)
     = Inl (Panic IndexOutOfRange)
   \<and> instanceAtIndex \<lparr>UUID = ''env-a'', module = None, instances = [0], instIndex = 0\<rparr> 2
     = Inl (Error ''invalid instance index'')"
  by (simp add: instanceAtIndex_def index_slice_def)

section \<open>Round-robin selection\<close>

lemma select_wrap:
  assumes "sint (instIndex w) = int (length (instances w)) - 1" "instances w \<noteq> []"
  shows "useInstance_select w = (w\<lparr>instIndex := 0\<rparr>, Inr (instances w ! 0))"
  using assms by (simp add: useInstance_select_def index_slice_def Let_def)

lemma select_step:
  assumes "0 \<le> sint (instIndex w)" "sint (instIndex w) < int (length (instances w)) - 1"
    "length (instances w) < 2 ^ 63"
  shows "useInstance_select w
           = (w\<lparr>instIndex := instIndex w + 1\<rparr>, Inr (instances w ! nat (sint (instIndex w) + 1)))
         \<and> sint (instIndex w + 1) = sint (instIndex w) + 1"
proof -
  have "int (length (instances w)) < 2 ^ 63" using assms(3)
    by (metis of_nat_less_iff of_nat_numeral of_nat_power)
  then have "sint (instIndex w) < 2 ^ 63 - 1" using assms(2) by linarith
  then have "sint (instIndex w + 1) = sint (instIndex w) + 1" by (rule sint_plus_one_64)
  then show ?thesis using assms by (simp add: useInstance_select_def index_slice_def Let_def)
qed

lemma select_out:
  assumes "instances w = [] \<or> int (length (instances w)) \<le> sint (instIndex w)"
  shows "snd (useInstance_select w) = Inl (Panic IndexOutOfRange)"
proof (cases "instances w = []")
  case True
  then show ?thesis by (simp add: useInstance_select_def index_slice_def Let_def)
next
  case False
  with assms have le: "int (length (instances w)) \<le> sint (instIndex w)" by simp
  show ?thesis
  proof (cases "sint (instIndex w) < 2 ^ 63 - 1")
    case True
    then have "sint (instIndex w + 1) = sint (instIndex w) + 1" by (rule sint_plus_one_64)
    with le show ?thesis by (simp add: useInstance_select_def index_slice_def Let_def)
  next
    case False
    then have "sint (instIndex w + 1) < 0" by (rule sint_plus_one_64_wrap)
    with le show ?thesis by (simp add: useInstance_select_def index_slice_def Let_def)
  qed
qed

text \<open>
  C10 (useInstance requires a non-empty pool). \<open>n\<close> is \<open>len(w.instances)\<close>, which fits
  Go's \<open>int\<close>. With at least one instance and the cursor inside the list, the selection
  \<open>w.instances[instIndex]\<close> is in bounds, yields the instance at \<open>(instIndex + 1) mod n\<close>,
  and leaves the cursor there, the list untouched. With an empty list, or the cursor at
  or beyond the length, the index expression is out of bounds and panics: no guard
  precedes it.
\<close>

theorem useInstance_select_round_robin:
  fixes w :: wasmEnvironment
  defines "n \<equiv> int (length (instances w))"
  assumes len: "length (instances w) < 2 ^ 63"
  shows "(1 \<le> n \<and> 0 \<le> sint (instIndex w) \<and> sint (instIndex w) < n \<longrightarrow>
            snd (useInstance_select w) = Inr (instances w ! nat ((sint (instIndex w) + 1) mod n))
          \<and> sint (instIndex (fst (useInstance_select w))) = (sint (instIndex w) + 1) mod n
          \<and> (sint (instIndex w) + 1) mod n < n
          \<and> instances (fst (useInstance_select w)) = instances w)
       \<and> (n = 0 \<or> n \<le> sint (instIndex w) \<longrightarrow>
            snd (useInstance_select w) = Inl (Panic IndexOutOfRange))"
proof (intro conjI impI)
  assume "n = 0 \<or> n \<le> sint (instIndex w)"
  then show "snd (useInstance_select w) = Inl (Panic IndexOutOfRange)"
    using select_out [of w] by (auto simp: n_def)
next
  assume a: "1 \<le> n \<and> 0 \<le> sint (instIndex w) \<and> sint (instIndex w) < n"
  show "snd (useInstance_select w) = Inr (instances w ! nat ((sint (instIndex w) + 1) mod n))"
  proof (cases "sint (instIndex w) = n - 1")
    case True
    then show ?thesis using a select_wrap [of w] by (auto simp: n_def)
  next
    case False
    then show ?thesis using a len select_step [of w] by (auto simp: n_def)
  qed
  show "sint (instIndex (fst (useInstance_select w))) = (sint (instIndex w) + 1) mod n"
  proof (cases "sint (instIndex w) = n - 1")
    case True
    then show ?thesis using a select_wrap [of w] by (auto simp: n_def)
  next
    case False
    then show ?thesis using a len select_step [of w] by (auto simp: n_def)
  qed
  show "(sint (instIndex w) + 1) mod n < n" using a by simp
  show "instances (fst (useInstance_select w)) = instances w"
    by (simp add: useInstance_select_def Let_def)
qed

theorem useInstance_select_round_robin_witness:
  "snd (useInstance_select \<lparr>UUID = ''env'', module = None, instances = [10, 11, 12], instIndex = 2\<rparr>) = Inr 10
   \<and> sint (instIndex (fst (useInstance_select
          \<lparr>UUID = ''env'', module = None, instances = [10, 11, 12], instIndex = 2\<rparr>))) = 0
   \<and> snd (useInstance_select \<lparr>UUID = ''env'', module = None, instances = [10, 11, 12], instIndex = 0\<rparr>) = Inr 11
   \<and> snd (useInstance_select \<lparr>UUID = ''env'', module = None, instances = [], instIndex = 0\<rparr>)
       = Inl (Panic IndexOutOfRange)
   \<and> snd (useInstance_select \<lparr>UUID = ''env'', module = None, instances = [10], instIndex = 1\<rparr>)
       = Inl (Panic IndexOutOfRange)"
  using useInstance_select_round_robin [of "\<lparr>UUID = ''env'', module = None, instances = [10, 11, 12], instIndex = 2\<rparr>"]
    useInstance_select_round_robin [of "\<lparr>UUID = ''env'', module = None, instances = [10, 11, 12], instIndex = 0\<rparr>"]
    useInstance_select_round_robin [of "\<lparr>UUID = ''env'', module = None, instances = [], instIndex = 0\<rparr>"]
    useInstance_select_round_robin [of "\<lparr>UUID = ''env'', module = None, instances = [10], instIndex = 1\<rparr>"]
  by simp

section \<open>The staged FFI result\<close>

text \<open>
  C6 (ffiResult is set at most once per cycle). \<open>setFFIResult\<close> stores the data exactly
  when nothing is staged and otherwise returns an error and leaves the instance as it
  was; \<open>useFFIResult\<close> on a staged result returns the staged bytes and resets the field
  to nil, after which \<open>setFFIResult\<close> stores again; with nothing staged \<open>useFFIResult\<close>
  returns an error.
\<close>

theorem setFFIResult_once:
  "(ffiResult w = None \<longrightarrow> setFFIResult w d = (None, w\<lparr>ffiResult := d\<rparr>))
   \<and> (ffiResult w \<noteq> None \<longrightarrow>
        setFFIResult w d = (Some (Error ''instance ffiResult is already set''), w))
   \<and> (ffiResult w = Some b \<longrightarrow>
        useFFIResult w = (Inr (Some b), w\<lparr>ffiResult := None\<rparr>)
        \<and> setFFIResult (snd (useFFIResult w)) d = (None, w\<lparr>ffiResult := d\<rparr>))
   \<and> (ffiResult w = None \<longrightarrow> useFFIResult w = (Inl (Error ''instance ffiResult is not set''), w))"
  by (simp add: setFFIResult_def useFFIResult_def)

theorem setFFIResult_once_witness:
  "setFFIResult \<lparr>memory = None, ctx = None, ffiResult = None\<rparr> (Some [1, 2])
     = (None, \<lparr>memory = None, ctx = None, ffiResult = Some [1, 2]\<rparr>)
   \<and> setFFIResult \<lparr>memory = None, ctx = None, ffiResult = Some [1, 2]\<rparr> (Some [3])
     = (Some (Error ''instance ffiResult is already set''), \<lparr>memory = None, ctx = None, ffiResult = Some [1, 2]\<rparr>)
   \<and> useFFIResult \<lparr>memory = None, ctx = None, ffiResult = Some [1, 2]\<rparr>
     = (Inr (Some [1, 2]), \<lparr>memory = None, ctx = None, ffiResult = None\<rparr>)
   \<and> setFFIResult (snd (useFFIResult \<lparr>memory = None, ctx = None, ffiResult = Some [1, 2]\<rparr>)) (Some [3])
     = (None, \<lparr>memory = None, ctx = None, ffiResult = Some [3]\<rparr>)
   \<and> useFFIResult \<lparr>memory = None, ctx = None, ffiResult = None\<rparr>
     = (Inl (Error ''instance ffiResult is not set''), \<lparr>memory = None, ctx = None, ffiResult = None\<rparr>)"
  using setFFIResult_once [of "\<lparr>memory = None, ctx = None, ffiResult = None\<rparr>" "Some [1, 2]"]
    setFFIResult_once [of "\<lparr>memory = None, ctx = None, ffiResult = Some [1, 2]\<rparr>" "Some [3]" "[1, 2]"]
    setFFIResult_once [of "\<lparr>memory = None, ctx = None, ffiResult = None\<rparr>" "Some [3]"]
  by simp

section \<open>The identifier registry\<close>

lemma setupNewIdentifier_issued:
  assumes "setupNewIdentifier u i draws s = Some (Inr t, s1)"
  shows "instanceMapper s t = None
         \<and> s1 = s\<lparr>instanceMapper := (instanceMapper s)(t \<mapsto> \<lparr>EnvUUID = u, InstIndex = i\<rparr>)\<rparr>"
  using assms by (induction draws) (auto split: sum.splits if_splits)

lemma setupNewIdentifier_failed:
  assumes "setupNewIdentifier u i draws s = Some (Inl err, s1)"
  shows "s1 = s"
  using assms by (induction draws) (auto split: sum.splits if_splits)

text \<open>
  C5 (reentrancy guard). The identifier \<open>t\<close> resolves to \<open>inst\<close>: it is in the mapper,
  its environment is registered, the index yields \<open>inst\<close>. When the \<open>ffiResult\<close> of
  \<open>inst\<close> is non-nil, \<open>instanceForIdentifier(t, true)\<close> returns the error of a call in
  progress, not the instance; \<open>instanceForIdentifier(t, false)\<close> returns the instance all
  the same.
\<close>

theorem instanceForIdentifier_reentrant:
  assumes "instanceMapper s t = Some ref"
    and "environments s (EnvUUID ref) = Some e"
    and "envStore s e = Some env"
    and "instanceAtIndex env (InstIndex ref) = Inr inst"
    and "instStore s inst = Some i"
    and "ffiResult i \<noteq> None"
  shows "instanceForIdentifier s t True
           = Inl (Error ''cannot use instance for host call with existing call in progress'')
         \<and> instanceForIdentifier s t False = Inr inst"
  using assms by (simp add: instanceForIdentifier_def)

theorem instanceForIdentifier_reentrant_witness:
  "instanceForIdentifier
     (pool_state\<lparr>instanceMapper := [5 \<mapsto> \<lparr>EnvUUID = ''env-a'', InstIndex = 1\<rparr>],
                 instStore := [0 \<mapsto> idle_instance, 1 \<mapsto> idle_instance\<lparr>ffiResult := Some [1]\<rparr>]\<rparr>) 5 True
     = Inl (Error ''cannot use instance for host call with existing call in progress'')
   \<and> instanceForIdentifier
     (pool_state\<lparr>instanceMapper := [5 \<mapsto> \<lparr>EnvUUID = ''env-a'', InstIndex = 1\<rparr>],
                 instStore := [0 \<mapsto> idle_instance, 1 \<mapsto> idle_instance\<lparr>ffiResult := Some [1]\<rparr>]\<rparr>) 5 False
     = Inr 1"
  using instanceForIdentifier_reentrant
    [of "pool_state\<lparr>instanceMapper := [5 \<mapsto> \<lparr>EnvUUID = ''env-a'', InstIndex = 1\<rparr>],
                 instStore := [0 \<mapsto> idle_instance, 1 \<mapsto> idle_instance\<lparr>ffiResult := Some [1]\<rparr>]\<rparr>"
        5 "\<lparr>EnvUUID = ''env-a'', InstIndex = 1\<rparr>" 0 pool_env 1 "idle_instance\<lparr>ffiResult := Some [1]\<rparr>"]
  by (simp add: pool_state_def pool_env_def idle_instance_def instanceAtIndex_def index_slice_def)

text \<open>
  The round trip for an entry that no other call has stored over. The environment
  \<open>env\<close> is registered under its UUID and \<open>i\<close> is an index into its instance list. When
  \<open>setupNewIdentifier(env.UUID, i)\<close> returns the identifier \<open>t\<close>, then in every later state
  \<open>s2\<close> in which \<open>t\<close> is mapped to the reference that call stored and the instance list
  of the environment is the same, \<open>instanceForIdentifier(t, false)\<close> returns
  \<open>env.instances[i]\<close>. That \<open>t\<close> has not been removed does not give the hypothesis
  \<open>live\<close>: the entry can have been stored over, see the last section.
\<close>

lemma setupNewIdentifier_round_trip:
  assumes reg: "environments s (UUID env) = Some e" "envStore s e = Some env"
    and i: "0 \<le> sint i" "sint i < int (length (instances env))"
    and issue: "setupNewIdentifier (UUID env) i draws s = Some (Inr t, s1)"
    and live: "instanceMapper s2 t = instanceMapper s1 t"
    and same: "environments s2 (UUID env) = Some e" "envStore s2 e = Some env2"
      "instances env2 = instances env"
  shows "instanceForIdentifier s2 t False = Inr (instances env ! nat (sint i))"
proof -
  have "instanceMapper s1 t = Some \<lparr>EnvUUID = UUID env, InstIndex = i\<rparr>"
    using setupNewIdentifier_issued [OF issue] by simp
  moreover have "instanceAtIndex env2 i = Inr (instances env ! nat (sint i))"
    using i same(3) instanceAtIndex_in_range [of i env2] by simp
  ultimately show ?thesis
    using live same by (simp add: instanceForIdentifier_def)
qed

lemma setupNewIdentifier_round_trip_example:
  "setupNewIdentifier ''env-a'' 1 [RandNum 5] pool_state
     = Some (Inr 5, pool_state\<lparr>instanceMapper := [5 \<mapsto> \<lparr>EnvUUID = ''env-a'', InstIndex = 1\<rparr>]\<rparr>)
   \<and> instanceForIdentifier
        (pool_state\<lparr>instanceMapper := [5 \<mapsto> \<lparr>EnvUUID = ''env-a'', InstIndex = 1\<rparr>],
                    instStore := [0 \<mapsto> idle_instance, 1 \<mapsto> idle_instance\<lparr>ctx := Some 7\<rparr>]\<rparr>) 5 False
       = Inr 1"
  using setupNewIdentifier_round_trip
    [of pool_state pool_env 0 1 "[RandNum 5]" 5
        "pool_state\<lparr>instanceMapper := [5 \<mapsto> \<lparr>EnvUUID = ''env-a'', InstIndex = 1\<rparr>]\<rparr>"
        "pool_state\<lparr>instanceMapper := [5 \<mapsto> \<lparr>EnvUUID = ''env-a'', InstIndex = 1\<rparr>],
                    instStore := [0 \<mapsto> idle_instance, 1 \<mapsto> idle_instance\<lparr>ctx := Some 7\<rparr>]\<rparr>"
        pool_env]
  by (simp add: pool_state_def pool_env_def randomIdentifier_def)

lemma index_slice_Inr:
  assumes "index_slice xs i = Inr x"
  shows "0 \<le> sint i \<and> sint i < int (length xs) \<and> x = xs ! nat (sint i)"
  using assms by (auto simp: index_slice_def split: if_splits)

lemma useInstance_select_frame:
  "UUID (fst (useInstance_select w)) = UUID w \<and> instances (fst (useInstance_select w)) = instances w
   \<and> module (fst (useInstance_select w)) = module w"
  by (simp add: useInstance_select_def Let_def)

lemma useInstance_select_snd:
  "snd (useInstance_select w)
     = index_slice (instances w) (instIndex (fst (useInstance_select w)))"
  by (simp add: useInstance_select_def Let_def)

text \<open>
  The same for the whole prefix of \<open>useInstance\<close>: the identifier handed to \<open>instFunc\<close>
  resolves, in the state \<open>instFunc\<close> starts in, to the instance handed to \<open>instFunc\<close>.
\<close>

lemma useInstance_acquire_resolves:
  assumes acq: "useInstance_acquire w c draws s = Some (Inr (inst, t), s')"
    and w: "envStore s w = Some env" "environments s (UUID env) = Some w"
  shows "instanceForIdentifier s' t False = Inr inst \<and> inst \<in> set (instances env)
         \<and> (\<exists>i. instStore s' inst = Some i \<and> ctx i = c \<and> ffiResult i = None)"
proof -
  define env' where "env' = fst (useInstance_select env)"
  define s1 where "s1 = s\<lparr>envStore := (envStore s)(w \<mapsto> env')\<rparr>"
  have sel: "useInstance_select env = (env', snd (useInstance_select env))"
    by (simp add: env'_def)
  from acq w(1) sel obtain s2 i where
    inst: "snd (useInstance_select env) = Inr inst"
    and issue: "setupNewIdentifier (UUID env') (instIndex env') draws s1 = Some (Inr t, s2)"
    and i: "instStore s1 inst = Some i"
    and s': "s' = s2\<lparr>instStore := (instStore s2)(inst \<mapsto> i\<lparr>ctx := c, ffiResult := None\<rparr>)\<rparr>"
    by (auto simp: useInstance_acquire_def s1_def Let_def split: sum.splits option.splits prod.splits)
  have frame: "UUID env' = UUID env" "instances env' = instances env"
    using useInstance_select_frame [of env] by (simp_all add: env'_def)
  have "index_slice (instances env) (instIndex env') = Inr inst"
    using inst useInstance_select_snd [of env] by (simp add: env'_def)
  then have idx: "0 \<le> sint (instIndex env')" "sint (instIndex env') < int (length (instances env))"
    "inst = instances env ! nat (sint (instIndex env'))"
    using index_slice_Inr [of "instances env" "instIndex env'" inst] by simp_all
  have s2: "s2 = s1\<lparr>instanceMapper := (instanceMapper s1)(t \<mapsto> \<lparr>EnvUUID = UUID env', InstIndex = instIndex env'\<rparr>)\<rparr>"
    using setupNewIdentifier_issued [OF issue] by simp
  have at: "instanceAtIndex env' (instIndex env') = Inr inst"
    using idx frame instanceAtIndex_in_range [of "instIndex env'" env'] by simp
  have "instanceForIdentifier s' t False = Inr inst"
    using at w(2) frame by (simp add: instanceForIdentifier_def s' s2 s1_def)
  moreover have "inst \<in> set (instances env)"
    using idx by (simp add: nat_less_iff)
  moreover have "\<exists>i. instStore s' inst = Some i \<and> ctx i = c \<and> ffiResult i = None"
    by (simp add: s')
  ultimately show ?thesis by simp
qed

section \<open>Reading guest memory\<close>

lemma sint_int32_of_int:
  assumes "0 \<le> k" "k < 2 ^ 31"
  shows "sint (word_of_int k :: int32) = k"
  using assms by (simp add: sint_sbintrunc' signed_take_bit_int_eq_self)

lemma sint_int32_lt: "sint (x :: int32) < 2 ^ 31"
  using sint_lt [of x] by simp

lemma readMemory_loop_copy:
  assumes "int (length result) = sint sz" "0 \<le> k" "k \<le> sint sz" "sint sz \<le> int (length data)"
  shows "readMemory_loop data result k sz
           = Inr (take (nat k) result @ take (nat (sint sz) - nat k) (drop (nat k) data))"
  using assms
proof (induction "nat (sint sz - k)" arbitrary: k result)
  case 0
  then have "k = sint sz" by simp
  moreover have "sint (word_of_int (sint sz) :: int32) = sint sz" by simp
  ultimately show ?case using 0 by (subst readMemory_loop.simps) simp
next
  case (Suc d)
  then have lt: "k < sint sz" by linarith
  have k31: "k < 2 ^ 31" using lt sint_int32_lt [of sz] by linarith
  have conv: "sint (word_of_int k :: int32) = k"
    using Suc.prems(2) k31 by (rule sint_int32_of_int)
  let ?r = "result[nat k := data ! nat k]"
  have step: "readMemory_loop data result k sz = readMemory_loop data ?r (k + 1) sz"
    using lt conv Suc.prems by (subst readMemory_loop.simps) simp
  have "readMemory_loop data ?r (k + 1) sz
          = Inr (take (nat (k + 1)) ?r @ take (nat (sint sz) - nat (k + 1)) (drop (nat (k + 1)) data))"
    using Suc.hyps(2) Suc.prems lt by (intro Suc.hyps(1)) auto
  also have "take (nat (k + 1)) ?r = take (nat k) result @ [data ! nat k]"
  proof -
    have "nat k < length ?r" using lt Suc.prems by auto
    then have "take (Suc (nat k)) ?r = take (nat k) ?r @ [?r ! nat k]"
      by (rule take_Suc_conv_app_nth)
    moreover have "nat (k + 1) = Suc (nat k)" using Suc.prems(2) by simp
    moreover have "?r ! nat k = data ! nat k" using lt Suc.prems by auto
    ultimately show ?thesis by simp
  qed
  also have "take (nat (sint sz) - nat (k + 1)) (drop (nat (k + 1)) data)
      = tl (take (nat (sint sz) - nat k) (drop (nat k) data))"
    using Suc.prems(2) by (simp add: nat_add_distrib tl_take drop_Suc tl_drop)
  also have "(take (nat k) result @ [data ! nat k]) @ tl (take (nat (sint sz) - nat k) (drop (nat k) data))
      = take (nat k) result @ take (nat (sint sz) - nat k) (drop (nat k) data)"
  proof -
    have "nat k < length data" using lt Suc.prems by auto
    moreover have "0 < nat (sint sz) - nat k" using lt Suc.prems(2) by auto
    ultimately have "take (nat (sint sz) - nat k) (drop (nat k) data)
        = data ! nat k # tl (take (nat (sint sz) - nat k) (drop (nat k) data))"
      by (cases "nat (sint sz) - nat k") (simp_all add: Cons_nth_drop_Suc [symmetric] drop_Suc tl_drop)
    then show ?thesis by simp
  qed
  finally show ?case using step by simp
qed


lemma readMemory_loop_overrun:
  assumes "int (length result) = sint sz" "0 \<le> k" "k \<le> int (length data)" "int (length data) < sint sz"
  shows "readMemory_loop data result k sz = Inl (Panic IndexOutOfRange)"
  using assms
proof (induction "nat (int (length data) - k)" arbitrary: k result)
  case 0
  then have k: "k = int (length data)" by simp
  have "k < 2 ^ 31" using k 0 sint_int32_lt [of sz] by linarith
  then have "sint (word_of_int k :: int32) = k" using 0(3) by (intro sint_int32_of_int)
  then show ?case using 0 k by (subst readMemory_loop.simps) simp
next
  case (Suc d)
  then have lt: "k < int (length data)" by linarith
  have "k < 2 ^ 31" using lt Suc.prems sint_int32_lt [of sz] by linarith
  then have conv: "sint (word_of_int k :: int32) = k" using Suc.prems(2) by (intro sint_int32_of_int)
  let ?r = "result[nat k := data ! nat k]"
  have "readMemory_loop data result k sz = readMemory_loop data ?r (k + 1) sz"
    using lt conv Suc.prems by (subst readMemory_loop.simps) simp
  also have "\<dots> = Inl (Panic IndexOutOfRange)"
    using Suc.hyps(2) Suc.prems lt by (intro Suc.hyps(1)) auto
  finally show ?case .
qed

text \<open>
  C3 (guest-memory read), as the code has it. With a \<open>memory\<close> export of bytes \<open>mem\<close>:
  when \<open>pointer\<close> and \<open>size\<close> are not negative and \<open>pointer + size\<close> is within the
  length of the memory, \<open>readMemory\<close> returns a copy of exactly the \<open>size\<close> bytes from
  \<open>pointer\<close> on; when \<open>pointer + size\<close> exceeds the length, or \<open>pointer\<close> or \<open>size\<close> is
  negative, the call does not return: the slice expression, \<open>make\<close> or the index
  expression of the loop panics. Nothing is truncated and nothing outside the memory
  is read, but no error value is produced either.
\<close>

theorem readMemory_checked_by_runtime:
  assumes mem: "memory w = Some mem"
  shows "(0 \<le> sint pointer \<and> 0 \<le> sint sz \<and> sint pointer + sint sz \<le> int (length mem) \<longrightarrow>
            readMemory w pointer sz = Inr (take (nat (sint sz)) (drop (nat (sint pointer)) mem)))
       \<and> (0 \<le> sint pointer \<and> 0 \<le> sint sz \<and> int (length mem) < sint pointer + sint sz \<longrightarrow>
            readMemory w pointer sz
              = Inl (Panic (if int (length mem) < sint pointer then SliceBoundsOutOfRange
                            else IndexOutOfRange)))
       \<and> (sint pointer < 0 \<or> int (length mem) < sint pointer \<longrightarrow>
            readMemory w pointer sz = Inl (Panic SliceBoundsOutOfRange))
       \<and> (0 \<le> sint pointer \<and> sint pointer \<le> int (length mem) \<and> sint sz < 0 \<longrightarrow>
            readMemory w pointer sz = Inl (Panic MakesliceLenOutOfRange))"
proof (intro conjI impI)
  assume a: "0 \<le> sint pointer \<and> 0 \<le> sint sz \<and> sint pointer + sint sz \<le> int (length mem)"
  let ?data = "drop (nat (sint pointer)) mem"
  let ?result = "replicate (nat (sint sz)) (0 :: byte)"
  have "readMemory_loop ?data ?result 0 sz
          = Inr (take (nat 0) ?result @ take (nat (sint sz) - nat 0) (drop (nat 0) ?data))"
    using a by (intro readMemory_loop_copy) auto
  then show "readMemory w pointer sz = Inr (take (nat (sint sz)) ?data)"
    using a mem by (simp add: readMemory_def)
next
  assume a: "0 \<le> sint pointer \<and> 0 \<le> sint sz \<and> int (length mem) < sint pointer + sint sz"
  show "readMemory w pointer sz
          = Inl (Panic (if int (length mem) < sint pointer then SliceBoundsOutOfRange
                        else IndexOutOfRange))"
  proof (cases "int (length mem) < sint pointer")
    case True
    then show ?thesis using mem by (simp add: readMemory_def)
  next
    case False
    let ?data = "drop (nat (sint pointer)) mem"
    let ?result = "replicate (nat (sint sz)) (0 :: byte)"
    have "readMemory_loop ?data ?result 0 sz = Inl (Panic IndexOutOfRange)"
      using a False by (intro readMemory_loop_overrun) auto
    then show ?thesis using a False mem by (simp add: readMemory_def)
  qed
next
  assume "sint pointer < 0 \<or> int (length mem) < sint pointer"
  then show "readMemory w pointer sz = Inl (Panic SliceBoundsOutOfRange)"
    using mem by (auto simp: readMemory_def)
next
  assume "0 \<le> sint pointer \<and> sint pointer \<le> int (length mem) \<and> sint sz < 0"
  then show "readMemory w pointer sz = Inl (Panic MakesliceLenOutOfRange)"
    using mem by (simp add: readMemory_def)
qed

lemma readMemory_no_memory:
  "memory w = None \<Longrightarrow> readMemory w pointer sz = Inr []"
  by (simp add: readMemory_def)

theorem readMemory_checked_by_runtime_witness:
  "readMemory idle_instance 0 2 = Inr [104, 105]
   \<and> readMemory idle_instance 1 1 = Inr [105]
   \<and> readMemory idle_instance 1 2 = Inl (Panic IndexOutOfRange)
   \<and> readMemory idle_instance 3 0 = Inl (Panic SliceBoundsOutOfRange)
   \<and> readMemory idle_instance (- 1) 1 = Inl (Panic SliceBoundsOutOfRange)
   \<and> readMemory idle_instance 0 (- 1) = Inl (Panic MakesliceLenOutOfRange)
   \<and> readMemory idle_instance 3 (- 1) = Inl (Panic SliceBoundsOutOfRange)"
  using readMemory_checked_by_runtime [of idle_instance "[104, 105]" 0 2]
    readMemory_checked_by_runtime [of idle_instance "[104, 105]" 3 "- 1"]
    readMemory_checked_by_runtime [of idle_instance "[104, 105]" 1 1]
    readMemory_checked_by_runtime [of idle_instance "[104, 105]" 1 2]
    readMemory_checked_by_runtime [of idle_instance "[104, 105]" 3 0]
    readMemory_checked_by_runtime [of idle_instance "[104, 105]" "- 1" 1]
    readMemory_checked_by_runtime [of idle_instance "[104, 105]" 0 "- 1"]
  by (simp add: idle_instance_def)

text \<open>
  C3 as stated fails: reading two bytes from offset 1 of a two-byte memory is not
  rejected with an error value (\<open>readMemory\<close> has none to return) but panics; and with
  no \<open>memory\<close> export the same read returns the empty slice.
\<close>

theorem readMemory_overrun_panics:
  "readMemory idle_instance 1 2 = Inl (Panic IndexOutOfRange)
   \<and> (\<forall>m. readMemory idle_instance 1 2 \<noteq> Inl (Error m))
   \<and> readMemory (idle_instance\<lparr>memory := None\<rparr>) 1 2 = Inr []"
  by (simp add: idle_instance_def readMemory_def)

section \<open>Adding an instance\<close>

lemma internals_instances: "instances (snd (internals rt env)) = instances env"
  by (auto simp: internals_def split: option.splits sum.splits)

lemma internals_compile_fail:
  assumes "module env = None" "ref_Bytes rt = Inr bytes" "NewModule rt bytes = Inl err"
  shows "fst (internals rt env) = Inl (errors_Wrap err ''failed to NewModule'')"
  using assms by (simp add: internals_def)

lemma addInstance_internals_fail:
  assumes "envStore s w = Some env" "fst (internals rt env) = Inl err"
  shows "fst (addInstance rt w s) = Some (errors_Wrap err ''failed to ModuleBytes'')
    \<and> invoked (snd (addInstance rt w s)) = invoked s
    \<and> instances_at (snd (addInstance rt w s)) w = Some (instances env)"
  using assms internals_instances [of rt env]
  by (cases "internals rt env") (auto simp: addInstance_def Let_def instances_at_def)

lemma addInstance_NewInstance_fail:
  assumes "envStore s w = Some env" "fst (internals rt env) = Inr m" "NewInstance rt m = Inl err"
  shows "fst (addInstance rt w s) = Some (errors_Wrap err ''failed to NewInstance'')
    \<and> invoked (snd (addInstance rt w s)) = invoked s
    \<and> instances_at (snd (addInstance rt w s)) w = Some (instances env)"
  using assms internals_instances [of rt env]
  by (cases "internals rt env") (auto simp: addInstance_def Let_def instances_at_def)

lemma addInstance_hooks:
  assumes "envStore s w = Some env" "fst (internals rt env) = Inr m" "NewInstance rt m = Inr ex"
  shows "invoked (snd (addInstance rt w s)) = invoked s @ called_hooks (instantiation_protocol ex)
    \<and> (fst (addInstance rt w s) = None \<longleftrightarrow> (\<forall>h \<in> set (instantiation_protocol ex). snd h = None))
    \<and> instances_at (snd (addInstance rt w s)) w
        = Some (if fst (addInstance rt w s) = None then instances env @ [instCount s] else instances env)
    \<and> (fst (addInstance rt w s) = None \<longrightarrow>
          instStore (snd (addInstance rt w s)) (instCount s)
            = Some \<lparr>memory = GetMemory ex, ctx = None, ffiResult = None\<rparr>)"
  using assms internals_instances [of rt env]
  by (cases "internals rt env")
     (auto simp: addInstance_def Let_def callExport_def instantiation_protocol_def instances_at_def
        split: option.splits)

text \<open>
  C7 (instantiation protocol, atomicity of addInstance). For an environment \<open>env\<close> at
  \<open>w\<close>: when \<open>internals\<close> fails (in particular when the module does not compile) or
  \<open>wasmer.NewInstance\<close> fails, \<open>addInstance\<close> returns an error, calls no export, and
  the instance list is unchanged. When an instance is made, the exports called are the
  hooks of the instantiation protocol in its order (the WASI start entry, or else
  \<open>_start\<close>, then \<open>init\<close>, each only if present) up to the first that fails;
  \<open>addInstance\<close> succeeds exactly when none fails; on an error the instance list is
  unchanged, and on success exactly one instance, the new one, is appended.
\<close>

theorem addInstance_protocol:
  assumes "envStore s w = Some env"
  shows "(fst (internals rt env) = Inl err \<or>
          (module env = None \<and> ref_Bytes rt = Inr bytes \<and> NewModule rt bytes = Inl err) \<or>
          (fst (internals rt env) = Inr m \<and> NewInstance rt m = Inl err) \<longrightarrow>
            fst (addInstance rt w s) \<noteq> None
          \<and> invoked (snd (addInstance rt w s)) = invoked s
          \<and> instances_at (snd (addInstance rt w s)) w = Some (instances env))
       \<and> (fst (internals rt env) = Inr m \<and> NewInstance rt m = Inr ex \<longrightarrow>
            invoked (snd (addInstance rt w s)) = invoked s @ called_hooks (instantiation_protocol ex)
          \<and> (fst (addInstance rt w s) = None \<longleftrightarrow> (\<forall>h \<in> set (instantiation_protocol ex). snd h = None))
          \<and> instances_at (snd (addInstance rt w s)) w
               = Some (if fst (addInstance rt w s) = None then instances env @ [instCount s]
                       else instances env)
          \<and> (fst (addInstance rt w s) = None \<longrightarrow>
                instStore (snd (addInstance rt w s)) (instCount s)
                  = Some \<lparr>memory = GetMemory ex, ctx = None, ffiResult = None\<rparr>))"
proof (intro conjI impI)
  assume "fst (internals rt env) = Inl err \<or>
          (module env = None \<and> ref_Bytes rt = Inr bytes \<and> NewModule rt bytes = Inl err) \<or>
          (fst (internals rt env) = Inr m \<and> NewInstance rt m = Inl err)"
  then consider e where "fst (internals rt env) = Inl e"
    | "fst (internals rt env) = Inr m" "NewInstance rt m = Inl err"
    using internals_compile_fail [of env rt bytes err] by blast
  then have "fst (addInstance rt w s) \<noteq> None
      \<and> invoked (snd (addInstance rt w s)) = invoked s
      \<and> instances_at (snd (addInstance rt w s)) w = Some (instances env)"
  proof cases
    case 1
    then show ?thesis using addInstance_internals_fail [OF assms, of rt e] by simp
  next
    case 2
    then show ?thesis using addInstance_NewInstance_fail [OF assms, of rt m err] by simp
  qed
  then show "fst (addInstance rt w s) \<noteq> None"
    and "invoked (snd (addInstance rt w s)) = invoked s"
    and "instances_at (snd (addInstance rt w s)) w = Some (instances env)"
    by simp_all
next
  assume a: "fst (internals rt env) = Inr m \<and> NewInstance rt m = Inr ex"
  note h = addInstance_hooks [OF assms, of rt m ex]
  show "invoked (snd (addInstance rt w s)) = invoked s @ called_hooks (instantiation_protocol ex)"
    using a h by simp
  show "fst (addInstance rt w s) = None \<longleftrightarrow> (\<forall>h \<in> set (instantiation_protocol ex). snd h = None)"
    using a h by simp
  show "instances_at (snd (addInstance rt w s)) w
               = Some (if fst (addInstance rt w s) = None then instances env @ [instCount s]
                       else instances env)"
    using a h by simp
  show "instStore (snd (addInstance rt w s)) (instCount s)
                  = Some \<lparr>memory = GetMemory ex, ctx = None, ffiResult = None\<rparr>"
    if "fst (addInstance rt w s) = None"
    using a h that by simp
qed

text \<open>The concrete pool is what \<open>newEnvironment\<close> and two calls of \<open>addInstance\<close> build.\<close>

lemma pool_state_reached:
  "snd (addInstance (plain_runtime plain_exports) 0
     (snd (addInstance (plain_runtime plain_exports) 0
        (snd (newEnvironment ''env-a'' 0 initial_state)))))
   = pool_state\<lparr>invoked := [GuestFunction ''_start'', GuestFunction ''init'',
                               GuestFunction ''_start'', GuestFunction ''init'']\<rparr>"
  by (simp add: addInstance_def newEnvironment_def initial_state_def plain_runtime_def
        plain_exports_def internals_def callExport_def pool_state_def pool_env_def idle_instance_def
        fun_upd_twist)

theorem addInstance_protocol_witness:
  "fst (addInstance (plain_runtime plain_exports) 0 pool_state) = None
   \<and> invoked (snd (addInstance (plain_runtime plain_exports) 0 pool_state))
       = [GuestFunction ''_start'', GuestFunction ''init'']
   \<and> instances_at (snd (addInstance (plain_runtime plain_exports) 0 pool_state)) 0
       = Some [0, 1, 2]
   \<and> fst (addInstance (plain_runtime (plain_exports\<lparr>GetFunction_init := Some (Some (Error ''trap''))\<rparr>)) 0 pool_state)
       \<noteq> None
   \<and> invoked (snd (addInstance
         (plain_runtime (plain_exports\<lparr>GetFunction_init := Some (Some (Error ''trap''))\<rparr>)) 0 pool_state))
       = [GuestFunction ''_start'', GuestFunction ''init'']
   \<and> instances_at (snd (addInstance
         (plain_runtime (plain_exports\<lparr>GetFunction_init := Some (Some (Error ''trap''))\<rparr>)) 0 pool_state)) 0
       = Some [0, 1]
   \<and> fst (addInstance ((plain_runtime plain_exports)\<lparr>NewInstance := (\<lambda>m. Inl (Error ''link''))\<rparr>) 0 pool_state)
       \<noteq> None
   \<and> instances_at (snd (addInstance
         ((plain_runtime plain_exports)\<lparr>NewInstance := (\<lambda>m. Inl (Error ''link''))\<rparr>) 0 pool_state)) 0
       = Some [0, 1]"
  using addInstance_protocol [of pool_state 0 pool_env "plain_runtime plain_exports" "Error ''none''" "[]" 0 plain_exports]
    addInstance_protocol [of pool_state 0 pool_env
      "plain_runtime (plain_exports\<lparr>GetFunction_init := Some (Some (Error ''trap''))\<rparr>)" "Error ''none''" "[]" 0
      "plain_exports\<lparr>GetFunction_init := Some (Some (Error ''trap''))\<rparr>"]
    addInstance_protocol [of pool_state 0 pool_env
      "(plain_runtime plain_exports)\<lparr>NewInstance := (\<lambda>m. Inl (Error ''link''))\<rparr>" "Error ''link''" "[]" 0 plain_exports]
  by (simp add: pool_state_def pool_env_def plain_runtime_def plain_exports_def internals_def
        instantiation_protocol_def)

section \<open>A host call with an unknown identifier\<close>

text \<open>
  C8 (unknown identifier), as the code has it. For an identifier with no entry in the
  registry, \<open>graphql_query\<close> returns \<open>-1\<close> and changes nothing but the log: no
  capability is invoked, and one entry is written with \<open>Logger.Error\<close>, at the error
  level, naming potential malicious activity.
\<close>

theorem graphql_query_unknown_identifier:
  assumes "instanceMapper s identifier = None"
  shows "graphql_query caps endpointPointer endpointSize queryPointer querySize identifier s
           = (Inr (- 1),
              s\<lparr>internalLogger := internalLogger s @
                   [(LogError, ''[rwasm] alert: invalid identifier used, potential malicious activity''
                               @ '': '' @ ''instance does not exist'')]\<rparr>)
         \<and> invoked (snd (graphql_query caps endpointPointer endpointSize queryPointer querySize identifier s))
             = invoked s"
  using assms by (simp add: graphql_query_def instanceForIdentifier_def logError_def)

theorem graphql_query_unknown_identifier_witness:
  "graphql_query failing_capabilities 0 1 0 1 7 pool_state
     = (Inr (- 1),
        pool_state\<lparr>internalLogger :=
          [(LogError, ''[rwasm] alert: invalid identifier used, potential malicious activity: instance does not exist'')]\<rparr>)
   \<and> invoked (snd (graphql_query failing_capabilities 0 1 0 1 7 pool_state)) = invoked pool_state"
  using graphql_query_unknown_identifier [of pool_state 7 failing_capabilities 0 1 0 1]
  by (simp add: pool_state_def)

text \<open>
  C8 as stated fails in the level of the log entry: for the unregistered identifier 7
  the one entry written is at the error level, none at the warning level.
\<close>

theorem graphql_query_logs_at_error_level:
  "instanceMapper pool_state 7 = None
   \<and> map fst (internalLogger (snd (graphql_query failing_capabilities 0 1 0 1 7 pool_state))) = [LogError]
   \<and> LogWarn \<notin> fst ` set (internalLogger (snd (graphql_query failing_capabilities 0 1 0 1 7 pool_state)))"
  by (simp add: graphql_query_def instanceForIdentifier_def logError_def pool_state_def)

section \<open>The reply of Listen\<close>

text \<open>
  C9 (reply of Listen), as the code has it. For every inbound message and every job
  outcome exactly one reply is handed to \<open>pod.ReplyTo\<close>. It is on the run-error topic
  when the returned error holds a \<open>RunErr\<close>, on the job-error topic for every other
  error; with no error, on the nil topic with an empty body for a nil result, on the
  result topic with the bytes for a \<open>[]byte\<close> or a string, and for any other value on
  the result topic with its JSON, or on the job-error topic when marshalling fails; and
  when the result is itself a bus message the reply is that message, with its own
  topic and its reply-to set to the inbound message's UUID.
\<close>

theorem Listen_handler_reply:
  fixes marshal :: "'a \<Rightarrow> job_error + string"
  shows "(errors_As_RunErr e = Some (code, m) \<longrightarrow>
            snd (Listen_handler fmt marshal u msg (res, Some e))
              = [NewMsgWithParentID u MsgTypeReactrRunErr (msg_ParentID msg) (fmt code m)])
       \<and> (errors_As_RunErr e = None \<longrightarrow>
            snd (Listen_handler fmt marshal u msg (res, Some e))
              = [NewMsgWithParentID u MsgTypeReactrJobErr (msg_ParentID msg) (job_error_Error fmt e)])
       \<and> snd (Listen_handler fmt marshal u msg (NilResult, None))
            = [NewMsgWithParentID u MsgTypeReactrNilResult (msg_ParentID msg) []]
       \<and> snd (Listen_handler fmt marshal u msg (MessageResult resultMsg, None))
            = [resultMsg\<lparr>msg_ReplyTo := msg_UUID msg\<rparr>]
       \<and> snd (Listen_handler fmt marshal u msg (BytesResult bytes, None))
            = [NewMsgWithParentID u MsgTypeReactrResult (msg_ParentID msg) bytes]
       \<and> snd (Listen_handler fmt marshal u msg (StringResult str, None))
            = [NewMsgWithParentID u MsgTypeReactrResult (msg_ParentID msg) str]
       \<and> (marshal v = Inr resultJSON \<longrightarrow>
            snd (Listen_handler fmt marshal u msg (StructResult v, None))
              = [NewMsgWithParentID u MsgTypeReactrResult (msg_ParentID msg) resultJSON])
       \<and> (marshal v = Inl err \<longrightarrow>
            snd (Listen_handler fmt marshal u msg (StructResult v, None))
              = [NewMsgWithParentID u MsgTypeReactrJobErr (msg_ParentID msg)
                   (''failed to Marshal job result: '' @ job_error_Error fmt err)])
       \<and> length (snd (Listen_handler fmt marshal u msg outcome)) = 1"
proof -
  have one: "length (snd (Listen_handler fmt marshal u msg outcome)) = 1"
    by (cases outcome)
       (auto simp: Listen_handler_def Let_def split: option.splits job_result.splits sum.splits)
  show ?thesis
    using one by (auto simp: Listen_handler_def Let_def)
qed

theorem Listen_handler_reply_witness:
  "snd (Listen_handler RunErr_text marshal_flag ''m-2'' inbound_message
          (NilResult, Some (Wrapped ''run'' (RunErr 400 ''bad input''))))
     = [NewMsgWithParentID ''m-2'' ''reactr.runerr'' ''p-1'' ''bad input'']
   \<and> snd (Listen_handler RunErr_text marshal_flag ''m-2'' inbound_message
          (NilResult, Some (OtherError ''timeout'')))
     = [NewMsgWithParentID ''m-2'' ''reactr.joberr'' ''p-1'' ''timeout'']
   \<and> snd (Listen_handler RunErr_text marshal_flag ''m-2'' inbound_message (StructResult True, None))
     = [NewMsgWithParentID ''m-2'' ''reactr.result'' ''p-1'' ''true'']
   \<and> snd (Listen_handler RunErr_text marshal_flag ''m-2'' inbound_message (StructResult False, None))
     = [NewMsgWithParentID ''m-2'' ''reactr.joberr'' ''p-1'' ''failed to Marshal job result: unsupported type'']"
  using Listen_handler_reply [of "Wrapped ''run'' (RunErr 400 ''bad input'')" 400 "''bad input''"
      RunErr_text marshal_flag "''m-2''" inbound_message NilResult]
    Listen_handler_reply [of "OtherError ''timeout''" 0 "[]"
      RunErr_text marshal_flag "''m-2''" inbound_message NilResult]
    Listen_handler_reply [of "OtherError ''timeout''" 0 "[]"
      RunErr_text marshal_flag "''m-2''" inbound_message NilResult _ _ _ True "''true''"]
    Listen_handler_reply [of "OtherError ''timeout''" 0 "[]"
      RunErr_text marshal_flag "''m-2''" inbound_message NilResult _ _ _ False _ "OtherError ''unsupported type''"]
  by (simp add: inbound_message_def RunErr_text_def marshal_flag_def MsgTypeReactrRunErr_def
        MsgTypeReactrJobErr_def MsgTypeReactrResult_def)

text \<open>
  C9 as stated fails for a job that returns a bus message: the reply carries that
  message's topic, not the result topic.
\<close>

theorem Listen_handler_message_result_keeps_topic:
  "map msg_Type (snd (Listen_handler RunErr_text marshal_flag ''m-2'' inbound_message
      (MessageResult \<lparr>msg_UUID = ''m-9'', msg_ParentID = ''p-9'', msg_ReplyTo = [],
                      msg_Type = ''compute.done'', msg_Data = ''25''\<rparr>, None)))
     = [''compute.done'']
   \<and> map msg_Type (snd (Listen_handler RunErr_text marshal_flag ''m-2'' inbound_message
      (MessageResult \<lparr>msg_UUID = ''m-9'', msg_ParentID = ''p-9'', msg_ReplyTo = [],
                      msg_Type = ''compute.done'', msg_Data = ''25''\<rparr>, None)))
     \<noteq> [MsgTypeReactrResult]"
  by (simp add: Listen_handler_def MsgTypeReactrResult_def)

section \<open>Uniqueness of identifiers\<close>

text \<open>
  A draw of \<open>rand.Int\<close> below \<open>MaxInt32\<close> gives a non-negative identifier: never the
  value \<open>-1\<close> that accompanies an error.
\<close>

lemma randomIdentifier_value:
  assumes "num < MaxInt32"
  shows "sint (word_of_nat num :: int32) = int num"
proof -
  have "int num < 2 ^ 31" using assms by (simp add: MaxInt32_def)
  moreover have "(word_of_nat num :: int32) = word_of_int (int num)" by simp
  ultimately show ?thesis
    using sint_int32_of_int [of "int num"] by simp
qed

lemma randomIdentifier_nonnegative:
  assumes "num < MaxInt32"
  shows "randomIdentifier (RandNum num) = Inr (word_of_nat num)
         \<and> 0 \<le> sint (word_of_nat num :: int32) \<and> (word_of_nat num :: int32) \<noteq> - 1"
proof -
  have v: "sint (word_of_nat num :: int32) = int num"
    using assms by (rule randomIdentifier_value)
  have "(word_of_nat num :: int32) \<noteq> - 1"
  proof
    assume "(word_of_nat num :: int32) = - 1"
    then have "sint (word_of_nat num :: int32) = sint (- 1 :: int32)" by simp
    then have "int num = - 1" using v by simp
    then show False by simp
  qed
  then show ?thesis using v by (simp add: randomIdentifier_def)
qed

text \<open>
  A call of \<open>setupNewIdentifier\<close> that runs without another one in between keeps every
  entry of the mapper, and the identifier it returns was not mapped before: two calls
  one after the other return different identifiers.
\<close>

lemma setupNewIdentifier_keeps_entries:
  assumes "setupNewIdentifier u i draws s = Some (r, s1)" "instanceMapper s k = Some ref"
  shows "instanceMapper s1 k = Some ref"
proof (cases r)
  case (Inl err)
  then show ?thesis using assms setupNewIdentifier_failed [of u i draws s err s1] by simp
next
  case (Inr t)
  then have "instanceMapper s t = None"
    and "s1 = s\<lparr>instanceMapper := (instanceMapper s)(t \<mapsto> \<lparr>EnvUUID = u, InstIndex = i\<rparr>)\<rparr>"
    using assms(1) setupNewIdentifier_issued [of u i draws s t s1] by simp_all
  then show ?thesis using assms(2) by auto
qed

lemma setupNewIdentifier_distinct:
  assumes "setupNewIdentifier u1 i1 draws1 s = Some (Inr t1, s1)"
    and "setupNewIdentifier u2 i2 draws2 s1 = Some (Inr t2, s2)"
  shows "t1 \<noteq> t2 \<and> instanceMapper s2 t1 = Some \<lparr>EnvUUID = u1, InstIndex = i1\<rparr>
         \<and> instanceMapper s2 t2 = Some \<lparr>EnvUUID = u2, InstIndex = i2\<rparr>"
  using setupNewIdentifier_issued [OF assms(1)] setupNewIdentifier_issued [OF assms(2)]
  by auto

lemma run_schedule_append:
  "run_schedule (xs @ ys) cm = run_schedule ys (run_schedule xs cm)"
proof (induction xs arbitrary: cm)
  case Nil
  then show ?case by simp
next
  case (Cons x xs)
  obtain k r where x: "x = (k, r)" by (cases x)
  obtain cs m where cm: "cm = (cs, m)" by (cases cm)
  show ?case using Cons.IH by (simp add: x cm Let_def split: prod.splits)
qed

text \<open>
  The atomic steps agree with \<open>setupNewIdentifier\<close>: whatever a call returns, and the
  mapper it leaves, is reached by the steps of one goroutine running alone.
\<close>

lemma setup_step_alone:
  assumes "setupNewIdentifier u i draws s = Some (r, s1)"
  shows "\<exists>sched. set (map fst sched) \<subseteq> {0}
           \<and> run_schedule sched ([\<lparr>envUUID_arg = u, instIndex_arg = i, pc = AtDraw\<rparr>], instanceMapper s)
              = ([\<lparr>envUUID_arg = u, instIndex_arg = i, pc = Returned r\<rparr>], instanceMapper s1)"
  using assms
proof (induction draws)
  case Nil
  then show ?case by simp
next
  case (Cons d draws)
  show ?case
  proof (cases "randomIdentifier d")
    case (Inl err)
    then have "r = Inl (errors_Wrap err ''failed to randomIdentifier'')" "s1 = s"
      using Cons.prems by simp_all
    then have "set (map fst [(0 :: nat, d)]) \<subseteq> {0}
      \<and> run_schedule [(0, d)] ([\<lparr>envUUID_arg = u, instIndex_arg = i, pc = AtDraw\<rparr>], instanceMapper s)
          = ([\<lparr>envUUID_arg = u, instIndex_arg = i, pc = Returned r\<rparr>], instanceMapper s1)"
      using Inl by (simp add: setup_step_def)
    then show ?thesis by blast
  next
    case (Inr ident)
    show ?thesis
    proof (cases "instanceMapper s ident")
      case None
      then have "r = Inr ident"
        "s1 = s\<lparr>instanceMapper := (instanceMapper s)(ident \<mapsto> \<lparr>EnvUUID = u, InstIndex = i\<rparr>)\<rparr>"
        using Cons.prems Inr by simp_all
      then have "set (map fst [(0 :: nat, d), (0, d), (0, d)]) \<subseteq> {0}
        \<and> run_schedule [(0, d), (0, d), (0, d)]
             ([\<lparr>envUUID_arg = u, instIndex_arg = i, pc = AtDraw\<rparr>], instanceMapper s)
            = ([\<lparr>envUUID_arg = u, instIndex_arg = i, pc = Returned r\<rparr>], instanceMapper s1)"
        using Inr None by (simp add: setup_step_def)
      then show ?thesis by blast
    next
      case (Some ref)
      then have "setupNewIdentifier u i draws s = Some (r, s1)"
        using Cons.prems Inr by simp
      then obtain sched where sched: "set (map fst sched) \<subseteq> {0}"
        "run_schedule sched ([\<lparr>envUUID_arg = u, instIndex_arg = i, pc = AtDraw\<rparr>], instanceMapper s)
           = ([\<lparr>envUUID_arg = u, instIndex_arg = i, pc = Returned r\<rparr>], instanceMapper s1)"
        using Cons.IH by blast
      have "run_schedule [(0, d), (0, d)]
              ([\<lparr>envUUID_arg = u, instIndex_arg = i, pc = AtDraw\<rparr>], instanceMapper s)
            = ([\<lparr>envUUID_arg = u, instIndex_arg = i, pc = AtDraw\<rparr>], instanceMapper s)"
        using Inr Some by (simp add: setup_step_def)
      then have "run_schedule ([(0, d), (0, d)] @ sched)
              ([\<lparr>envUUID_arg = u, instIndex_arg = i, pc = AtDraw\<rparr>], instanceMapper s)
            = ([\<lparr>envUUID_arg = u, instIndex_arg = i, pc = Returned r\<rparr>], instanceMapper s1)"
        using sched(2) by (simp only: run_schedule_append)
      moreover have "set (map fst ([(0, d), (0, d)] @ sched)) \<subseteq> {0}"
        using sched(1) by simp
      ultimately show ?thesis by blast
    qed
  qed
qed

text \<open>
  C4 (identifier uniqueness). The check \<open>Load\<close> and the insertion \<open>Store\<close> are two
  atomic steps with nothing holding other goroutines off in between. On the schedule
  where two calls both draw 5 and both run \<open>Load(5)\<close> before either runs \<open>Store\<close>,
  neither re-draws: after five steps the first call has returned 5 and its entry is
  live in the mapper; the sixth step, the second call's \<open>Store\<close>, overwrites that
  entry, and the second call returns 5 as well.
\<close>

theorem setupNewIdentifier_check_then_store_race:
  "run_schedule (take 5 racing_schedule) (racing_calls, Map.empty)
     = ([\<lparr>envUUID_arg = ''env-a'', instIndex_arg = 0, pc = Returned (Inr 5)\<rparr>,
         \<lparr>envUUID_arg = ''env-b'', instIndex_arg = 0, pc = AtStore 5\<rparr>],
        [5 \<mapsto> \<lparr>EnvUUID = ''env-a'', InstIndex = 0\<rparr>])
   \<and> run_schedule racing_schedule (racing_calls, Map.empty)
     = ([\<lparr>envUUID_arg = ''env-a'', instIndex_arg = 0, pc = Returned (Inr 5)\<rparr>,
         \<lparr>envUUID_arg = ''env-b'', instIndex_arg = 0, pc = Returned (Inr 5)\<rparr>],
        [5 \<mapsto> \<lparr>EnvUUID = ''env-b'', InstIndex = 0\<rparr>])"
  by (simp add: racing_schedule_def racing_calls_def setup_step_def randomIdentifier_def)

text \<open>
  C1 (round trip of the FFI dispatch). In the state with the environments \<open>env-a\<close> and
  \<open>env-b\<close>, \<open>useInstance\<close> on \<open>env-a\<close> has selected its instance at index 0 (address 0) and
  its call \<open>setupNewIdentifier("env-a", 0)\<close> runs on the schedule above, next to the call
  for \<open>env-b\<close>. After five steps it has returned the identifier 5, and
  \<open>instanceForIdentifier(5, false)\<close> returns the instance at address 0. After the sixth
  step, the \<open>Store\<close> of the other call, nothing has removed identifier 5 and no
  instance has been added to or removed from either environment, yet
  \<open>instanceForIdentifier(5, false)\<close> returns the instance at address 1, the one of
  \<open>env-b\<close>: the round trip does not give back the instance the identifier was issued
  for.
\<close>

theorem round_trip_broken_by_overlapping_issue:
  "pc (fst (run_schedule (take 5 racing_schedule) (racing_calls, instanceMapper two_pools_state)) ! 0)
     = Returned (Inr 5)
   \<and> instanceForIdentifier
        (two_pools_state\<lparr>instanceMapper :=
           snd (run_schedule (take 5 racing_schedule) (racing_calls, instanceMapper two_pools_state))\<rparr>)
        5 False = Inr 0
   \<and> snd (run_schedule racing_schedule (racing_calls, instanceMapper two_pools_state)) 5 \<noteq> None
   \<and> instanceForIdentifier
        (two_pools_state\<lparr>instanceMapper :=
           snd (run_schedule racing_schedule (racing_calls, instanceMapper two_pools_state))\<rparr>)
        5 False = Inr 1"
  by (simp add: racing_schedule_def racing_calls_def setup_step_def randomIdentifier_def
        two_pools_state_def instanceForIdentifier_def instanceAtIndex_def index_slice_def)

end
